theory Spec2Isabelle
  imports Complex_Main "HOL-Library.AList" "HOL-Library.List_Lexorder" "HOL-Library.Option_ord"
    "HOL-Library.Multiset"
begin

section \<open>Python strings\<close>

text \<open>
  Strings are lists of ASCII characters. Only the letters \<open>A\<close> to \<open>Z\<close> and \<open>a\<close> to
  \<open>z\<close> are cased; every other character is uncased, as in Python for ASCII text.
\<close>

definition is_upper :: "char \<Rightarrow> bool" where
  "is_upper c = (65 \<le> (of_char c :: nat) \<and> (of_char c :: nat) \<le> 90)"

definition is_lower :: "char \<Rightarrow> bool" where
  "is_lower c = (97 \<le> (of_char c :: nat) \<and> (of_char c :: nat) \<le> 122)"

definition to_lower :: "char \<Rightarrow> char" where
  "to_lower c = (if is_upper c then char_of ((of_char c :: nat) + 32) else c)"

definition to_upper :: "char \<Rightarrow> char" where
  "to_upper c = (if is_lower c then char_of ((of_char c :: nat) - 32) else c)"

text \<open>\<^verbatim>\<open>s.lower()\<close>\<close>

definition lower :: "string \<Rightarrow> string" where
  "lower s = map to_lower s"

text \<open>\<^verbatim>\<open>s.startswith(p)\<close>\<close>

fun startswith :: "string \<Rightarrow> string \<Rightarrow> bool" where
  "startswith s [] = True"
| "startswith [] (p # ps) = False"
| "startswith (c # cs) (p # ps) = (c = p \<and> startswith cs ps)"

text \<open>\<^verbatim>\<open>sub in s\<close>: \<open>sub\<close> occurs in \<open>s\<close> as a contiguous substring.\<close>

fun contains :: "string \<Rightarrow> string \<Rightarrow> bool" where
  "contains sub [] = (sub = [])"
| "contains sub (c # cs) = (startswith (c # cs) sub \<or> contains sub cs)"

text \<open>
  \<^verbatim>\<open>s.replace(old, new)\<close> for a non-empty \<open>old\<close>: every occurrence, left to right, without
  overlap. The program only calls it with the patterns \<open>/\<close>, \<open>_\<close>, \<open>Lr\<close> and \<open>Nn\<close>; for the
  empty pattern, which it never passes, the model returns \<open>s\<close>.
\<close>

function replace :: "string \<Rightarrow> string \<Rightarrow> string \<Rightarrow> string" where
  "replace old new s =
     (if old = [] \<or> s = [] then s
      else if startswith s old then new @ replace old new (drop (length old) s)
      else hd s # replace old new (tl s))"
  by pat_completeness auto
termination
  by (relation "measure (\<lambda>(old, new, s). length s)") auto

declare replace.simps [simp del]

text \<open>
  \<^verbatim>\<open>s.title()\<close>: a cased character that follows an uncased one (or starts the string) is
  made upper case, a cased character that follows a cased one is made lower case.
  \<open>title_from prev s\<close> carries the flag "the previous character was cased".
\<close>

fun title_from :: "bool \<Rightarrow> string \<Rightarrow> string" where
  "title_from prev [] = []"
| "title_from prev (c # cs) =
     (if is_lower c then (if prev then c else to_upper c) # title_from True cs
      else if is_upper c then (if prev then to_lower c else c) # title_from True cs
      else c # title_from False cs)"

definition title :: "string \<Rightarrow> string" where
  "title s = title_from False s"

section \<open>Values, dictionaries and run records\<close>

text \<open>
  The scalar values of a run's config and summary. A finite float is the rational number
  it denotes; \<open>VNaN\<close> is the float NaN.
\<close>

datatype val = VNone | VBool bool | VInt int | VFloat rat | VNaN | VStr string

datatype error = KeyError string | NoRunsFound

text \<open>
  A Python \<^verbatim>\<open>dict\<close> with string keys is an association list in insertion order.
  \<^verbatim>\<open>d[k] = v\<close> is \<^const>\<open>AList.update\<close>: it overwrites the value of a key that is present,
  in place, and appends a new key at the end. \<^verbatim>\<open>k in d\<close> and \<^verbatim>\<open>d[k]\<close> read
  \<^term>\<open>map_of d k\<close>.
\<close>

type_synonym dict = "(string \<times> val) list"

text \<open>\<^verbatim>\<open>d.update(e)\<close>\<close>

definition dict_update :: "dict \<Rightarrow> dict \<Rightarrow> dict" where
  "dict_update d e = fold (\<lambda>(k, v). AList.update k v) e d"

record run =
  group :: string
  job_type :: string
  name :: string
  config :: dict
  summary :: dict

section \<open>Data frames\<close>

text \<open>
  A data frame has an ordered list of column labels and a list of rows; a row carries its
  index label and maps a column label to the cell stored there. Only the labels in
  \<open>columns\<close> belong to the frame. The type \<open>'c\<close> of the cells, and what pandas does with
  a cell, are parameters of the operations below:
  \<^item> \<open>cell col v\<close> is the cell stored for the raw value \<open>v\<close> (\<open>None\<close> where the row's
    dictionary has no such key, which pandas fills with NaN) in a column whose raw
    values are \<open>col\<close>, after the conversion to the column's inferred type;
  \<^item> \<open>str\<close> is Python's \<^verbatim>\<open>str\<close> on a cell;
  \<^item> \<open>is_float c\<close> is \<^verbatim>\<open>isinstance(c, float)\<close>;
  \<^item> \<open>rnd p c\<close> is the cell \<open>c\<close> rounded to \<open>p\<close> decimals, as \<^verbatim>\<open>Series.round(p)\<close> does;
  \<^item> \<open>key c\<close> is the position of a cell in the order that sorting compares cells by.
\<close>

record 'c frame =
  columns :: "string list"
  rows :: "(nat \<times> (string \<Rightarrow> 'c)) list"

text \<open>
  \<^verbatim>\<open>pd.DataFrame(output)\<close> for a list of dictionaries: the columns are the keys in the
  order of their first appearance, the index is \<open>0, 1, ...\<close>.
\<close>

definition frame_columns :: "dict list \<Rightarrow> string list" where
  "frame_columns output = rev (remdups (rev (concat (map (map fst) output))))"

definition DataFrame :: "(val option list \<Rightarrow> val option \<Rightarrow> 'c) \<Rightarrow> dict list \<Rightarrow> 'c frame" where
  "DataFrame cell output =
     \<lparr>columns = frame_columns output,
      rows = zip [0 ..< length output]
        (map (\<lambda>d col. cell (map (\<lambda>d'. map_of d' col) output) (map_of d col)) output)\<rparr>"

text \<open>\<^verbatim>\<open>df[col].apply(str)\<close>: the string forms of a column's cells, row by row.\<close>

definition str_values :: "('c \<Rightarrow> string) \<Rightarrow> 'c frame \<Rightarrow> string \<Rightarrow> string list" where
  "str_values str df col = map (\<lambda>r. str (snd r col)) (rows df)"

text \<open>\<^verbatim>\<open>df.drop(columns=cs)\<close>\<close>

definition drop_columns :: "string list \<Rightarrow> 'c frame \<Rightarrow> 'c frame" where
  "drop_columns cs df = df\<lparr>columns := filter (\<lambda>col. col \<notin> set cs) (columns df)\<rparr>"

section \<open>The run filter\<close>

text \<open>\<^verbatim>\<open>remove_constant_columns\<close>\<close>

definition constant_columns :: "('c \<Rightarrow> string) \<Rightarrow> 'c frame \<Rightarrow> string list" where
  "constant_columns str df =
     filter (\<lambda>col. card (set (str_values str df col)) = 1) (columns df)"

definition remove_constant_columns :: "('c \<Rightarrow> string) \<Rightarrow> 'c frame \<Rightarrow> 'c frame" where
  "remove_constant_columns str df = drop_columns (constant_columns str df) df"

text \<open>
  The two tests on \<^verbatim>\<open>config_filter\<close> in \<^verbatim>\<open>filter_runs\<close>:
  \<^verbatim>\<open>config_filter and config_filter[0].lower() != "different"\<close> and
  \<^verbatim>\<open>config_filter and config_filter[0].lower() == 'different'\<close>.
\<close>

definition named_keys :: "string list \<Rightarrow> bool" where
  "named_keys config_filter =
     (case config_filter of [] \<Rightarrow> False | c # _ \<Rightarrow> lower c \<noteq> ''different'')"

definition different :: "string list \<Rightarrow> bool" where
  "different config_filter =
     (case config_filter of [] \<Rightarrow> False | c # _ \<Rightarrow> lower c = ''different'')"

text \<open>
  \<^verbatim>\<open>for config_param in config_filter: run_params[config_param] = config[config_param]\<close>,
  which raises \<^verbatim>\<open>KeyError\<close> at the first name that \<^verbatim>\<open>config\<close> lacks.
\<close>

fun copy_config :: "string list \<Rightarrow> dict \<Rightarrow> dict \<Rightarrow> error + dict" where
  "copy_config [] conf run_params = Inr run_params"
| "copy_config (config_param # ps) conf run_params =
     (case map_of conf config_param of
        None \<Rightarrow> Inl (KeyError config_param)
      | Some v \<Rightarrow> copy_config ps conf (AList.update config_param v run_params))"

text \<open>The \<^verbatim>\<open>if\<close>/\<^verbatim>\<open>else\<close> on the config filter (named keys, or all of \<^verbatim>\<open>config\<close>).\<close>

definition add_config :: "string list \<Rightarrow> dict \<Rightarrow> dict \<Rightarrow> error + dict" where
  "add_config config_filter conf run_params =
     (if named_keys config_filter then copy_config config_filter conf run_params
      else Inr (dict_update run_params conf))"

text \<open>
  \<^verbatim>\<open>for summary_param in results_filter\<close>: copies the metrics that \<^verbatim>\<open>summary\<close> has and
  sets \<^verbatim>\<open>valid_result\<close> when there is one.
\<close>

fun copy_results :: "string list \<Rightarrow> dict \<Rightarrow> dict \<times> bool \<Rightarrow> dict \<times> bool" where
  "copy_results [] summ (run_params, valid_result) = (run_params, valid_result)"
| "copy_results (summary_param # ps) summ (run_params, valid_result) =
     (case map_of summ summary_param of
        Some v \<Rightarrow> copy_results ps summ (AList.update summary_param v run_params, True)
      | None \<Rightarrow> copy_results ps summ (run_params, valid_result))"

text \<open>
  The body of the loop over \<^verbatim>\<open>runs\<close>, on the list \<^verbatim>\<open>output\<close> built so far. The
  printing under \<^verbatim>\<open>show_keys\<close> writes to the console only and is left out.
\<close>

definition visit_run ::
  "string \<Rightarrow> string \<Rightarrow> string list \<Rightarrow> string list \<Rightarrow> bool \<Rightarrow> run \<Rightarrow> dict list \<Rightarrow> error + dict list" where
  "visit_run group_filter jt_filter config_filter results_filter include_timestamp r output =
     (if (group r = group_filter \<or> group_filter = '''') \<and> (job_type r = jt_filter \<or> jt_filter = '''')
      then
        (case add_config config_filter (filter (\<lambda>(k, v). \<not> startswith k ''_'') (config r))
                [(''group'', VStr (group r)), (''job_type'', VStr (job_type r)),
                 (''run_name'', VStr (name r))] of
           Inl e \<Rightarrow> Inl e
         | Inr run_params \<Rightarrow>
             (if results_filter \<noteq> [] then
                (case copy_results results_filter (summary r) (run_params, False) of
                   (run_params', valid_result) \<Rightarrow>
                     (if valid_result then
                        (if include_timestamp then
                           (case map_of (summary r) ''_timestamp'' of
                              None \<Rightarrow> Inl (KeyError ''_timestamp'')
                            | Some t \<Rightarrow> Inr (output @ [AList.update ''timestamp'' t run_params']))
                         else Inr (output @ [run_params']))
                      else Inr output))
              else Inr (output @ [dict_update run_params (summary r)])))
      else Inr output)"

fun collect_rows ::
  "string \<Rightarrow> string \<Rightarrow> string list \<Rightarrow> string list \<Rightarrow> bool \<Rightarrow> run list \<Rightarrow> dict list \<Rightarrow> error + dict list" where
  "collect_rows gf jf cf rf ts [] output = Inr output"
| "collect_rows gf jf cf rf ts (r # runs) output =
     (case visit_run gf jf cf rf ts r output of
        Inl e \<Rightarrow> Inl e
      | Inr output' \<Rightarrow> collect_rows gf jf cf rf ts runs output')"

definition filter_runs ::
  "(val option list \<Rightarrow> val option \<Rightarrow> 'c) \<Rightarrow> ('c \<Rightarrow> string) \<Rightarrow> run list \<Rightarrow> string \<Rightarrow> string \<Rightarrow>
   string list \<Rightarrow> string list \<Rightarrow> bool \<Rightarrow> error + 'c frame" where
  "filter_runs cell str runs group_filter jt_filter config_filter results_filter include_timestamp =
     (case collect_rows group_filter jt_filter config_filter results_filter include_timestamp runs [] of
        Inl e \<Rightarrow> Inl e
      | Inr output \<Rightarrow>
          (if length output = 0 then Inl NoRunsFound
           else Inr (if different config_filter
                     then remove_constant_columns str (DataFrame cell output)
                     else DataFrame cell output)))"

section \<open>Column titles\<close>

text \<open>
  The body of the loop of \<^verbatim>\<open>get_columns_mapper\<close>: the display name of one column.
\<close>

definition renamed_col :: "string \<Rightarrow> string" where
  "renamed_col col =
     replace ''Nn'' ''NN'' (replace ''Lr'' ''LR'' (title (replace ''_'' '' '' (replace ''/'' '' '' col))))"

text \<open>
  \<^verbatim>\<open>get_columns_mapper\<close>: the dictionary from each column label to its display name.
\<close>

definition get_columns_mapper :: "'c frame \<Rightarrow> (string \<times> string) list" where
  "get_columns_mapper df = fold (\<lambda>col m. AList.update col (renamed_col col) m) (columns df) []"

section \<open>The report\<close>

text \<open>
  Stable sorting in descending order of a key, by insertion: an element is put in front
  of the first later element whose key is not greater, so elements with equal keys keep
  their order.
\<close>

fun insort_desc :: "('a \<Rightarrow> 'k::linorder) \<Rightarrow> 'a \<Rightarrow> 'a list \<Rightarrow> 'a list" where
  "insort_desc k x [] = [x]"
| "insort_desc k x (y # ys) = (if k y \<le> k x then x # y # ys else y # insort_desc k x ys)"

definition sort_desc :: "('a \<Rightarrow> 'k::linorder) \<Rightarrow> 'a list \<Rightarrow> 'a list" where
  "sort_desc k xs = foldr (insort_desc k) xs []"

text \<open>
  Modelled from the spec: pandas' \<^verbatim>\<open>DataFrame.sort_values(by=cols, ascending=False)\<close>, which
  is not part of the repository. The spec's sort stage "stable-sort[s] rows descending by
  the named column(s)": the rows are compared by the keys of their cells in the named
  columns, lexicographically in the order the columns are named, and rows that agree on
  all of them keep their order. A name that is not a column raises \<^verbatim>\<open>KeyError\<close>. The
  index labels travel with their rows.
\<close>

definition sort_values :: "('c \<Rightarrow> 'k::linorder) \<Rightarrow> string list \<Rightarrow> 'c frame \<Rightarrow> error + 'c frame" where
  "sort_values key cols df =
     (case find (\<lambda>col. col \<notin> set (columns df)) cols of
        Some col \<Rightarrow> Inl (KeyError col)
      | None \<Rightarrow> Inr (df\<lparr>rows := sort_desc (\<lambda>r. map (\<lambda>col. key (snd r col)) cols) (rows df)\<rparr>))"

text \<open>
  Modelled from the spec: pandas' \<^verbatim>\<open>DataFrame.nlargest(n, col)\<close>, which is not part of the
  repository. The spec's top-N stage "keep[s] only the top-N rows ranked descending by
  that metric's value; ties broken by original relative order (stable)": the first \<open>n\<close>
  rows of the stable descending sort by the column, and no row when \<open>n\<close> is not positive.
  A name that is not a column raises \<^verbatim>\<open>KeyError\<close>.
\<close>

definition nlargest :: "('c \<Rightarrow> 'k::linorder) \<Rightarrow> int \<Rightarrow> string \<Rightarrow> 'c frame \<Rightarrow> error + 'c frame" where
  "nlargest key n col df =
     (if col \<in> set (columns df)
      then Inr (df\<lparr>rows := take (nat n) (sort_desc (\<lambda>r. key (snd r col)) (rows df))\<rparr>)
      else Inl (KeyError col))"

text \<open>
  \<^verbatim>\<open>df[col][0]\<close>: the cell of column \<open>col\<close> in the row whose index label is \<open>0\<close>. The
  index of a frame is made of integers, so the subscript is a label, not a position, and
  a frame without a row labelled \<open>0\<close> raises \<^verbatim>\<open>KeyError\<close>.
\<close>

definition at_label_0 :: "'c frame \<Rightarrow> string \<Rightarrow> error + 'c" where
  "at_label_0 df col =
     (case find (\<lambda>r. fst r = 0) (rows df) of
        None \<Rightarrow> Inl (KeyError ''0'')
      | Some r \<Rightarrow> Inr (snd r col))"

text \<open>\<^verbatim>\<open>df[col] = df[col].round(p)\<close>\<close>

definition round_series :: "(nat \<Rightarrow> 'c \<Rightarrow> 'c) \<Rightarrow> nat \<Rightarrow> string \<Rightarrow> 'c frame \<Rightarrow> 'c frame" where
  "round_series rnd p col df =
     df\<lparr>rows := map (\<lambda>(i, cells). (i, cells(col := rnd p (cells col)))) (rows df)\<rparr>"

text \<open>
  The tests of the \<^verbatim>\<open>if\<close>/\<^verbatim>\<open>elif\<close> chain on a column label, in the order of the source,
  each with the number of decimals of its branch.
\<close>

definition markers :: "string \<Rightarrow> (bool \<times> nat) list" where
  "markers col =
     [(contains ''accuracy'' col, 2),
      (contains ''f1_score'' col, 3),
      (contains ''lr'' col, 6),
      (contains ''ssim'' (lower col), 4),
      (contains ''psnr'' (lower col), 3),
      (contains ''sam'' (lower col), 3),
      (contains ''ergas'' (lower col), 3),
      (contains ''timestamp'' (lower col), 0)]"

text \<open>
  The chain itself. A branch is \<^verbatim>\<open>marker in col and isinstance(df[col][0], float)\<close>:
  \<^verbatim>\<open>df[col][0]\<close> is read only when the marker occurs, the column is rounded and the chain
  left when the cell is a float, and the next branch is tried otherwise.
\<close>

fun round_chain ::
  "('c \<Rightarrow> bool) \<Rightarrow> (nat \<Rightarrow> 'c \<Rightarrow> 'c) \<Rightarrow> (bool \<times> nat) list \<Rightarrow> string \<Rightarrow> 'c frame \<Rightarrow> error + 'c frame" where
  "round_chain is_float rnd [] col df = Inr df"
| "round_chain is_float rnd ((m, p) # ms) col df =
     (if m then
        (case at_label_0 df col of
           Inl e \<Rightarrow> Inl e
         | Inr c \<Rightarrow> (if is_float c then Inr (round_series rnd p col df)
                     else round_chain is_float rnd ms col df))
      else round_chain is_float rnd ms col df)"

text \<open>\<^verbatim>\<open>for col in df.columns\<close>: the rounding of the columns one after the other.\<close>

fun round_values ::
  "('c \<Rightarrow> bool) \<Rightarrow> (nat \<Rightarrow> 'c \<Rightarrow> 'c) \<Rightarrow> string list \<Rightarrow> 'c frame \<Rightarrow> error + 'c frame" where
  "round_values is_float rnd [] df = Inr df"
| "round_values is_float rnd (col # cols) df =
     (case round_chain is_float rnd (markers col) col df of
        Inl e \<Rightarrow> Inl e
      | Inr df' \<Rightarrow> round_values is_float rnd cols df')"

text \<open>
  A frame whose columns have been renamed may have two columns of one name, so it is kept
  by position: the header and, for each row, the index label and the cells in the order
  of the header. \<^verbatim>\<open>df.rename(columns=mapper)\<close> gives every column the name the mapper
  has for it and leaves a column the mapper does not name as it is.
\<close>

record 'c sheet =
  header :: "string list"
  body :: "(nat \<times> 'c list) list"

definition rename :: "(string \<times> string) list \<Rightarrow> 'c frame \<Rightarrow> 'c sheet" where
  "rename mapper df =
     \<lparr>header = map (\<lambda>col. case map_of mapper col of None \<Rightarrow> col | Some t \<Rightarrow> t) (columns df),
      body = map (\<lambda>(i, cells). (i, map cells (columns df))) (rows df)\<rparr>"

text \<open>The options of the command line, with the types \<^verbatim>\<open>parse_opt\<close> gives them.\<close>

record opt =
  project :: string
  group_filter :: string
  jt_filter :: string
  config_filter :: "string list"
  results_filter :: "string list"
  save_file :: string
  best_metric :: string
  n_largest :: int
  show_keys :: bool
  sort_by :: "string list"
  include_timestamp :: bool

text \<open>The defaults of \<^verbatim>\<open>parse_opt\<close>.\<close>

definition default_opt :: opt where
  "default_opt =
     \<lparr>project = ''au-phd/Cow-ID'', group_filter = '''', jt_filter = '''', config_filter = [],
      results_filter = [], save_file = ''results.csv'', best_metric = '''', n_largest = 5,
      show_keys = False, sort_by = [], include_timestamp = False\<rparr>"

text \<open>\<^verbatim>\<open>if opt.sort_by: df = df.sort_values(by=opt.sort_by, ascending=False)\<close>\<close>

definition sort_stage :: "('c \<Rightarrow> 'k::linorder) \<Rightarrow> opt \<Rightarrow> 'c frame \<Rightarrow> error + 'c frame" where
  "sort_stage key opt df =
     (if sort_by opt \<noteq> [] then sort_values key (sort_by opt) df else Inr df)"

text \<open>\<^verbatim>\<open>if opt.best_metric: df = df.nlargest(opt.n_largest, opt.best_metric)\<close>\<close>

definition best_stage :: "('c \<Rightarrow> 'k::linorder) \<Rightarrow> opt \<Rightarrow> 'c frame \<Rightarrow> error + 'c frame" where
  "best_stage key opt df =
     (if best_metric opt \<noteq> '''' then nlargest key (n_largest opt) (best_metric opt) df
      else Inr df)"

text \<open>
  \<^verbatim>\<open>main\<close> up to the renamed frame. \<open>runs\<close> is what the tracking service returns for
  \<^verbatim>\<open>api.runs(opt.project)\<close>.
\<close>

definition report ::
  "(val option list \<Rightarrow> val option \<Rightarrow> 'c) \<Rightarrow> ('c \<Rightarrow> string) \<Rightarrow> ('c \<Rightarrow> 'k::linorder) \<Rightarrow> ('c \<Rightarrow> bool) \<Rightarrow>
   (nat \<Rightarrow> 'c \<Rightarrow> 'c) \<Rightarrow> opt \<Rightarrow> run list \<Rightarrow> error + 'c sheet" where
  "report cell str key is_float rnd opt runs =
     (case filter_runs cell str runs (group_filter opt) (jt_filter opt) (config_filter opt)
             (results_filter opt) (include_timestamp opt) of
        Inl e \<Rightarrow> Inl e
      | Inr df \<Rightarrow>
          (case sort_stage key opt df of
             Inl e \<Rightarrow> Inl e
           | Inr df1 \<Rightarrow>
               (case best_stage key opt df1 of
                  Inl e \<Rightarrow> Inl e
                | Inr df2 \<Rightarrow>
                    (case round_values is_float rnd (columns df2) df2 of
                       Inl e \<Rightarrow> Inl e
                     | Inr df3 \<Rightarrow> Inr (rename (get_columns_mapper df3) df3)))))"

text \<open>
  \<^verbatim>\<open>main\<close> on the files of the working directory, a map from path to content:
  \<^verbatim>\<open>df.to_csv(opt.save_file)\<close> stores the sheet under the path, and an exception leaves
  the files as they were.
\<close>

definition main ::
  "(val option list \<Rightarrow> val option \<Rightarrow> 'c) \<Rightarrow> ('c \<Rightarrow> string) \<Rightarrow> ('c \<Rightarrow> 'k::linorder) \<Rightarrow> ('c \<Rightarrow> bool) \<Rightarrow>
   (nat \<Rightarrow> 'c \<Rightarrow> 'c) \<Rightarrow> opt \<Rightarrow> run list \<Rightarrow> (string \<rightharpoonup> 'c sheet) \<Rightarrow>
   (error + unit) \<times> (string \<rightharpoonup> 'c sheet)" where
  "main cell str key is_float rnd opt runs files =
     (case report cell str key is_float rnd opt runs of
        Inl e \<Rightarrow> (Inl e, files)
      | Inr sheet \<Rightarrow> (Inr (), files(save_file opt \<mapsto> sheet)))"

section \<open>The properties in the words of the specification\<close>

text \<open>
  A run matches the group and job-type filters when its group is the group filter or no
  group filter is given, and its job type is the job-type filter or none is given. It has
  a requested metric when one of the names of the results filter is a key of its summary.
  The runs that are to give a row are the matching runs, restricted to those with a
  requested metric when a results filter is given.
\<close>

definition matches_filters :: "string \<Rightarrow> string \<Rightarrow> run \<Rightarrow> bool" where
  "matches_filters gf jf r = ((group r = gf \<or> gf = '''') \<and> (job_type r = jf \<or> jf = ''''))"

definition has_metric :: "string list \<Rightarrow> run \<Rightarrow> bool" where
  "has_metric rf r = list_ex (\<lambda>p. map_of (summary r) p \<noteq> None) rf"

definition row_runs :: "string \<Rightarrow> string \<Rightarrow> string list \<Rightarrow> run list \<Rightarrow> run list" where
  "row_runs gf jf rf runs = filter (\<lambda>r. matches_filters gf jf r \<and> (rf = [] \<or> has_metric rf r)) runs"

text \<open>A row has the three identity fields of its run.\<close>

definition identity_keys :: "dict \<Rightarrow> bool" where
  "identity_keys d = ({''group'', ''job_type'', ''run_name''} \<subseteq> fst ` set d)"

text \<open>The key that the sort stage compares rows by: the keys of the named columns.\<close>

definition row_key :: "('c \<Rightarrow> 'k) \<Rightarrow> string list \<Rightarrow> nat \<times> (string \<Rightarrow> 'c) \<Rightarrow> 'k list" where
  "row_key key cols r = map (\<lambda>col. key (snd r col)) cols"



section \<open>A plain instance of the cell operations\<close>

text \<open>
  The examples below run the definitions with cells that are the raw values, NaN where a
  key is missing, and with these operations on them: floats are the values \<open>VFloat\<close> and
  \<open>VNaN\<close>; rounding is exact decimal rounding of a finite float; numbers are ordered by
  their value and every other cell comes below them; the string form of a cell is
  injective on the values.
\<close>

definition plain_cell :: "val option list \<Rightarrow> val option \<Rightarrow> val" where
  "plain_cell col v = (case v of None \<Rightarrow> VNaN | Some x \<Rightarrow> x)"

definition val_is_float :: "val \<Rightarrow> bool" where
  "val_is_float v = (case v of VFloat x \<Rightarrow> True | VNaN \<Rightarrow> True | _ \<Rightarrow> False)"

definition decimal_round :: "nat \<Rightarrow> val \<Rightarrow> val" where
  "decimal_round p v = (case v of VFloat x \<Rightarrow> VFloat (of_int (round (x * 10 ^ p)) / 10 ^ p) | _ \<Rightarrow> v)"

definition num_key :: "val \<Rightarrow> rat option" where
  "num_key v = (case v of VFloat x \<Rightarrow> Some x | VInt i \<Rightarrow> Some (of_int i) | _ \<Rightarrow> None)"

function str_of_nat :: "nat \<Rightarrow> string" where
  "str_of_nat n =
     (if n < 10 then [char_of (48 + n)] else str_of_nat (n div 10) @ [char_of (48 + n mod 10)])"
  by pat_completeness auto
termination
  by (relation "measure id") auto

declare str_of_nat.simps [simp del]

definition str_of_int :: "int \<Rightarrow> string" where
  "str_of_int i = (if i < 0 then CHR ''-'' # str_of_nat (nat (- i)) else str_of_nat (nat i))"

definition plain_str :: "val \<Rightarrow> string" where
  "plain_str v =
     (case v of
        VNone \<Rightarrow> ''None''
      | VBool b \<Rightarrow> (if b then ''True'' else ''False'')
      | VInt i \<Rightarrow> str_of_int i
      | VFloat x \<Rightarrow> str_of_int (fst (quotient_of x)) @ ''/'' @ str_of_int (snd (quotient_of x))
      | VNaN \<Rightarrow> ''nan''
      | VStr s \<Rightarrow> CHR 0x27 # s @ [CHR 0x27])"

text \<open>The two runs of the specification's end-to-end scenario, and a run of another group.\<close>

definition run_1 :: run where
  "run_1 = \<lparr>group = ''A'', job_type = ''t'', name = ''one'', config = [(''lr'', VFloat (1 / 100))],
            summary = [(''ssim'', VFloat (8231 / 10000)), (''_timestamp'', VInt 100)]\<rparr>"

definition run_2 :: run where
  "run_2 = \<lparr>group = ''A'', job_type = ''t'', name = ''two'', config = [(''lr'', VFloat (2 / 100))],
            summary = [(''ssim'', VFloat (9102 / 10000)), (''_timestamp'', VInt 200)]\<rparr>"

definition run_3 :: run where
  "run_3 = \<lparr>group = ''B'', job_type = ''u'', name = ''three'', config = [(''_wandb'', VNone)],
            summary = [(''Accuracy'', VFloat (123456 / 1000000))]\<rparr>"

text \<open>The rows that the first two runs give when neither config nor results are filtered.\<close>

definition row_1 :: dict where
  "row_1 = [(''group'', VStr ''A''), (''job_type'', VStr ''t''), (''run_name'', VStr ''one''),
            (''lr'', VFloat (1 / 100)), (''ssim'', VFloat (8231 / 10000)), (''_timestamp'', VInt 100)]"

definition row_2 :: dict where
  "row_2 = [(''group'', VStr ''A''), (''job_type'', VStr ''t''), (''run_name'', VStr ''two''),
            (''lr'', VFloat (2 / 100)), (''ssim'', VFloat (9102 / 10000)), (''_timestamp'', VInt 200)]"

section \<open>Column titles are stable under a second renaming\<close>





















section \<open>The rows of the run filter\<close>

lemma copy_results_valid:
  "copy_results rf summ (rp, v) = (rp', v') \<Longrightarrow>
   v' = (v \<or> list_ex (\<lambda>p. map_of summ p \<noteq> None) rf)"
  by (induction rf arbitrary: rp v) (auto split: option.splits)

text \<open>A visit that does not raise appends one row for a run that is to give one, and nothing else.\<close>

lemma visit_run_rows:
  assumes "visit_run gf jf cf rf ts r out = Inr out'"
  shows "if matches_filters gf jf r \<and> (rf = [] \<or> has_metric rf r)
         then \<exists>d. out' = out @ [d] else out' = out"
proof (cases "matches_filters gf jf r")
  case False
  with assms show ?thesis
    by (auto simp: visit_run_def matches_filters_def split: if_splits)
next
  case True
  then have g: "(group r = gf \<or> gf = []) \<and> (job_type r = jf \<or> jf = [])"
    by (simp add: matches_filters_def)
  show ?thesis
  proof (cases "rf = []")
    case True
    with assms g \<open>matches_filters gf jf r\<close> show ?thesis
      by (auto simp: visit_run_def split: sum.splits)
  next
    case False
    obtain rp where rp: "add_config cf (filter (\<lambda>(k, v). \<not> startswith k ''_'') (config r))
                [(''group'', VStr (group r)), (''job_type'', VStr (job_type r)),
                 (''run_name'', VStr (name r))] = Inr rp"
      using assms g by (auto simp: visit_run_def split: sum.splits)
    obtain rp' v' where cr: "copy_results rf (summary r) (rp, False) = (rp', v')"
      by (cases "copy_results rf (summary r) (rp, False)") auto
    from copy_results_valid[OF cr] have v': "v' = has_metric rf r"
      by (simp add: has_metric_def)
    from assms g rp cr False v' \<open>matches_filters gf jf r\<close> show ?thesis
      by (auto simp: visit_run_def split: if_splits option.splits)
  qed
qed

lemma collect_rows_length:
  "collect_rows gf jf cf rf ts runs out = Inr out' \<Longrightarrow>
   length out' = length out + length (row_runs gf jf rf runs)"
proof (induction runs arbitrary: out)
  case Nil
  then show ?case by (simp add: row_runs_def)
next
  case (Cons r runs)
  then obtain mid where m: "visit_run gf jf cf rf ts r out = Inr mid"
    and c: "collect_rows gf jf cf rf ts runs mid = Inr out'"
    by (auto split: sum.splits)
  from visit_run_rows[OF m] Cons.IH[OF c] show ?case
    by (auto simp: row_runs_def split: if_splits)
qed

lemma length_rows_DataFrame: "length (rows (DataFrame cell outp)) = length outp"
  by (simp add: DataFrame_def)

lemma rows_remove_constant_columns: "rows (remove_constant_columns str df) = rows df"
  by (simp add: remove_constant_columns_def drop_columns_def)

lemma filter_runs_Inr:
  "filter_runs cell str runs gf jf cf rf ts = Inr df \<Longrightarrow>
   \<exists>outp. collect_rows gf jf cf rf ts runs [] = Inr outp \<and> outp \<noteq> [] \<and>
     df = (if different cf then remove_constant_columns str (DataFrame cell outp)
           else DataFrame cell outp)"
  by (auto simp: filter_runs_def split: sum.splits if_splits)

text \<open>Without named config keys and without the timestamp, no key is looked up that may be missing.\<close>

lemma visit_run_no_error:
  "\<not> named_keys cf \<Longrightarrow> \<not> ts \<Longrightarrow> \<exists>out'. visit_run gf jf cf rf ts r out = Inr out'"
  by (auto simp: visit_run_def add_config_def split: prod.splits)

lemma collect_rows_no_error:
  "\<not> named_keys cf \<Longrightarrow> \<not> ts \<Longrightarrow> \<exists>out'. collect_rows gf jf cf rf ts runs out = Inr out'"
proof (induction runs arbitrary: out)
  case Nil
  then show ?case by simp
next
  case (Cons r runs)
  from visit_run_no_error[OF Cons.prems, of gf jf rf r out]
  obtain mid where "visit_run gf jf cf rf ts r out = Inr mid" by blast
  with Cons.IH[OF Cons.prems, of mid] show ?case by simp
qed

lemma visit_run_gate:
  "visit_run gf jf cf rf ts r out =
     (if matches_filters gf jf r then visit_run [] [] cf rf ts r out else Inr out)"
  by (simp add: visit_run_def matches_filters_def)


lemmas example_defs =
  visit_run_def add_config_def named_keys_def different_def lower_def to_lower_def
  is_upper_def dict_update_def run_1_def run_2_def run_3_def row_runs_def matches_filters_def
  has_metric_def

text \<open>
  C1, as stated, fails: for every run list in which at least one run matches the group
  and job-type filters, the number of rows produced by \<^verbatim>\<open>filter_runs\<close> would be the number
  of the runs that are to give a row. A matching run whose config lacks a named config key
  makes \<^verbatim>\<open>filter_runs\<close> raise \<^verbatim>\<open>KeyError\<close>, and no row is produced.
\<close>

theorem filter_runs_row_count_counterexample:
  "list_ex (matches_filters '''' '''') [run_3] \<and>
   length (row_runs '''' '''' [] [run_3]) = 1 \<and>
   filter_runs plain_cell plain_str [run_3] '''' '''' [''lr''] [] False = Inl (KeyError ''lr'')"
  by (simp add: filter_runs_def example_defs)

text \<open>
  C1, amended. Whenever \<^verbatim>\<open>filter_runs\<close> returns a table, the number of its rows is the
  number of matching runs that have at least one of the requested metrics in their summary
  when a results filter is given, and the number of all matching runs when no results
  filter is given: matching runs with none of the requested metrics contribute no row. It
  returns a table whenever there is such a run, no config keys are named and the timestamp
  is not requested.
\<close>

theorem filter_runs_row_count:
  "(filter_runs cell str runs gf jf cf rf ts = Inr df \<longrightarrow>
      length (rows df) = length (row_runs gf jf rf runs)) \<and>
   (\<not> named_keys cf \<and> \<not> ts \<and> row_runs gf jf rf runs \<noteq> [] \<longrightarrow>
      (\<exists>df'. filter_runs cell str runs gf jf cf rf ts = Inr df'))"
proof (intro conjI impI)
  assume "filter_runs cell str runs gf jf cf rf ts = Inr df"
  from filter_runs_Inr[OF this] obtain outp where
    c: "collect_rows gf jf cf rf ts runs [] = Inr outp" and
    d: "df = (if different cf then remove_constant_columns str (DataFrame cell outp)
           else DataFrame cell outp)" by blast
  from d have "length (rows df) = length outp"
    by (simp add: rows_remove_constant_columns length_rows_DataFrame)
  with collect_rows_length[OF c] show "length (rows df) = length (row_runs gf jf rf runs)"
    by simp
next
  assume a: "\<not> named_keys cf \<and> \<not> ts \<and> row_runs gf jf rf runs \<noteq> []"
  then obtain outp where c: "collect_rows gf jf cf rf ts runs [] = Inr outp"
    using collect_rows_no_error[of cf ts gf jf rf runs "[]"] by blast
  from collect_rows_length[OF c] a have "outp \<noteq> []" by auto
  with c show "\<exists>df'. filter_runs cell str runs gf jf cf rf ts = Inr df'"
    by (simp add: filter_runs_def)
qed

theorem filter_runs_row_count_witness:
  "filter_runs plain_cell plain_str [run_1, run_2, run_3] ''A'' '''' [] [''ssim''] False =
     Inr (DataFrame plain_cell
       [[(''group'', VStr ''A''), (''job_type'', VStr ''t''), (''run_name'', VStr ''one''),
         (''lr'', VFloat (1 / 100)), (''ssim'', VFloat (8231 / 10000))],
        [(''group'', VStr ''A''), (''job_type'', VStr ''t''), (''run_name'', VStr ''two''),
         (''lr'', VFloat (2 / 100)), (''ssim'', VFloat (9102 / 10000))]]) \<and>
   row_runs ''A'' '''' [''ssim''] [run_1, run_2, run_3] = [run_1, run_2] \<and>
   length (rows (DataFrame plain_cell
       [[(''group'', VStr ''A''), (''job_type'', VStr ''t''), (''run_name'', VStr ''one''),
         (''lr'', VFloat (1 / 100)), (''ssim'', VFloat (8231 / 10000))],
        [(''group'', VStr ''A''), (''job_type'', VStr ''t''), (''run_name'', VStr ''two''),
         (''lr'', VFloat (2 / 100)), (''ssim'', VFloat (9102 / 10000))]])) = 2"
proof -
  have a: "filter_runs plain_cell plain_str [run_1, run_2, run_3] ''A'' '''' [] [''ssim''] False =
     Inr (DataFrame plain_cell
       [[(''group'', VStr ''A''), (''job_type'', VStr ''t''), (''run_name'', VStr ''one''),
         (''lr'', VFloat (1 / 100)), (''ssim'', VFloat (8231 / 10000))],
        [(''group'', VStr ''A''), (''job_type'', VStr ''t''), (''run_name'', VStr ''two''),
         (''lr'', VFloat (2 / 100)), (''ssim'', VFloat (9102 / 10000))]])"
    by (simp add: filter_runs_def example_defs)
  have b: "row_runs ''A'' '''' [''ssim''] [run_1, run_2, run_3] = [run_1, run_2]"
    by (simp add: example_defs)
  from filter_runs_row_count[of plain_cell plain_str "[run_1, run_2, run_3]" "''A''" "''''" "[]"
      "[''ssim'']" False] a b
  show ?thesis by simp
qed

section \<open>The no-match error and the gate of the filters\<close>

lemma collect_rows_no_match:
  "list_all (\<lambda>r. \<not> matches_filters gf jf r) runs \<Longrightarrow> collect_rows gf jf cf rf ts runs out = Inr out"
  by (induction runs arbitrary: out) (simp_all add: visit_run_gate[of gf jf])

lemma main_error:
  "filter_runs cell str runs (group_filter opt) (jt_filter opt) (config_filter opt)
     (results_filter opt) (include_timestamp opt) = Inl e \<Longrightarrow>
   main cell str key is_float rnd opt runs files = (Inl e, files)"
  by (simp add: main_def report_def)

text \<open>
  C2. Whenever zero rows survive filtering, that is, the loop over the runs ends with an
  empty \<^verbatim>\<open>output\<close>, \<^verbatim>\<open>filter_runs\<close> raises the no-match error and \<^verbatim>\<open>main\<close> ends with
  that error and the files as they were: \<^verbatim>\<open>to_csv\<close> is not reached. This is the case, in
  particular, when no run matches the group and job-type filters.
\<close>

theorem no_rows_no_output:
  "(collect_rows (group_filter opt) (jt_filter opt) (config_filter opt) (results_filter opt)
      (include_timestamp opt) runs [] = Inr [] \<longrightarrow>
    filter_runs cell str runs (group_filter opt) (jt_filter opt) (config_filter opt)
      (results_filter opt) (include_timestamp opt) = Inl NoRunsFound \<and>
    main cell str key is_float rnd opt runs files = (Inl NoRunsFound, files)) \<and>
   (list_all (\<lambda>r. \<not> matches_filters (group_filter opt) (jt_filter opt) r) runs \<longrightarrow>
    collect_rows (group_filter opt) (jt_filter opt) (config_filter opt) (results_filter opt)
      (include_timestamp opt) runs [] = Inr [])"
proof (intro conjI impI)
  assume a: "collect_rows (group_filter opt) (jt_filter opt) (config_filter opt) (results_filter opt)
      (include_timestamp opt) runs [] = Inr []"
  then show f: "filter_runs cell str runs (group_filter opt) (jt_filter opt) (config_filter opt)
      (results_filter opt) (include_timestamp opt) = Inl NoRunsFound"
    by (simp add: filter_runs_def)
  show "main cell str key is_float rnd opt runs files = (Inl NoRunsFound, files)"
    by (rule main_error[OF f])
next
  assume "list_all (\<lambda>r. \<not> matches_filters (group_filter opt) (jt_filter opt) r) runs"
  then show "collect_rows (group_filter opt) (jt_filter opt) (config_filter opt) (results_filter opt)
      (include_timestamp opt) runs [] = Inr []"
    by (rule collect_rows_no_match)
qed

theorem no_rows_no_output_witness:
  "list_all (\<lambda>r. \<not> matches_filters ''C'' '''' r) [run_1, run_2, run_3] \<and>
   collect_rows ''C'' '''' [] [] False [run_1, run_2, run_3] [] = Inr [] \<and>
   filter_runs plain_cell plain_str [run_1, run_2, run_3] ''C'' '''' [] [] False = Inl NoRunsFound \<and>
   main plain_cell plain_str num_key val_is_float decimal_round
     (default_opt\<lparr>group_filter := ''C''\<rparr>) [run_1, run_2, run_3] Map.empty = (Inl NoRunsFound, Map.empty)"
proof -
  have a: "list_all (\<lambda>r. \<not> matches_filters ''C'' '''' r) [run_1, run_2, run_3]"
    by (simp add: example_defs)
  have o: "group_filter (default_opt\<lparr>group_filter := ''C''\<rparr>) = ''C''"
    "jt_filter (default_opt\<lparr>group_filter := ''C''\<rparr>) = ''''"
    "config_filter (default_opt\<lparr>group_filter := ''C''\<rparr>) = []"
    "results_filter (default_opt\<lparr>group_filter := ''C''\<rparr>) = []"
    "include_timestamp (default_opt\<lparr>group_filter := ''C''\<rparr>) = False"
    by (simp_all add: default_opt_def)
  from no_rows_no_output[of "default_opt\<lparr>group_filter := ''C''\<rparr>" "[run_1, run_2, run_3]"
      plain_cell plain_str num_key val_is_float decimal_round Map.empty] a
  show ?thesis unfolding o by blast
qed




section \<open>The constant-column pruner\<close>

lemma columns_remove_constant_columns:
  "columns (remove_constant_columns str df) =
   filter (\<lambda>col. card (set (str_values str df col)) \<noteq> 1) (columns df)"
  by (auto simp: remove_constant_columns_def drop_columns_def constant_columns_def
        intro: filter_cong)

lemma str_values_remove_constant_columns:
  "str_values str (remove_constant_columns str df) col = str_values str df col"
  by (simp add: str_values_def rows_remove_constant_columns)

lemma card_str_values_pos: "rows df \<noteq> [] \<Longrightarrow> 1 \<le> card (set (str_values str df col))"
  by (simp add: str_values_def Suc_le_eq card_gt_0_iff)

lemma card_str_values_single: "length (rows df) = 1 \<Longrightarrow> card (set (str_values str df col)) = 1"
  by (cases "rows df") (simp_all add: str_values_def)

lemma retained_columns:
  assumes "rows df \<noteq> []" "col \<in> set (columns (remove_constant_columns str df))"
  shows "2 \<le> card (set (str_values str df col))"
  using assms(2) card_str_values_pos[OF assms(1), of str col]
  by (simp add: columns_remove_constant_columns)

lemma dropped_columns:
  assumes "col \<in> set (columns df)" "col \<notin> set (columns (remove_constant_columns str df))"
  shows "card (set (str_values str df col)) = 1"
  using assms by (simp add: columns_remove_constant_columns)

lemma rows_DataFrame_nonempty: "outp \<noteq> [] \<Longrightarrow> rows (DataFrame cell outp) \<noteq> []"
  using length_rows_DataFrame[of cell outp] by (metis length_0_conv)

lemma single_row_columns: "length (rows df) = 1 \<Longrightarrow> columns (remove_constant_columns str df) = []"
  by (simp add: columns_remove_constant_columns card_str_values_single)

text \<open>
  C5. Every table that \<^verbatim>\<open>filter_runs\<close> gives to the constant-column pruner comes back with
  columns that each have at least 2 distinct stringified values across the rows, and every
  column dropped had exactly 1; the pruner is applied when the filtering mode is
  "different", and in every other mode the table of the collected rows is returned as it
  is.
\<close>

theorem pruner_columns:
  assumes "filter_runs cell str runs gf jf cf rf ts = Inr df"
  shows "\<exists>outp. collect_rows gf jf cf rf ts runs [] = Inr outp \<and>
     (if different cf
      then df = remove_constant_columns str (DataFrame cell outp) \<and>
           (\<forall>col \<in> set (columns df). 2 \<le> card (set (str_values str df col))) \<and>
           (\<forall>col \<in> set (columns (DataFrame cell outp)) - set (columns df).
              card (set (str_values str (DataFrame cell outp) col)) = 1)
      else df = DataFrame cell outp)"
proof -
  from filter_runs_Inr[OF assms] obtain outp where
    c: "collect_rows gf jf cf rf ts runs [] = Inr outp" and ne: "outp \<noteq> []" and
    d: "df = (if different cf then remove_constant_columns str (DataFrame cell outp)
           else DataFrame cell outp)" by blast
  let ?t = "DataFrame cell outp"
  have r: "rows ?t \<noteq> []" by (rule rows_DataFrame_nonempty[OF ne])
  show ?thesis
  proof (cases "different cf")
    case False
    with c d show ?thesis by auto
  next
    case True
    with d have df: "df = remove_constant_columns str ?t" by simp
    have 1: "\<forall>col \<in> set (columns df). 2 \<le> card (set (str_values str df col))"
      using retained_columns[OF r] by (simp add: df str_values_remove_constant_columns)
    have 2: "\<forall>col \<in> set (columns ?t) - set (columns df). card (set (str_values str ?t col)) = 1"
      using dropped_columns[of _ ?t str] by (simp add: df)
    from c df 1 2 True show ?thesis by auto
  qed
qed

lemma collect_rows_different_example:
  "collect_rows '''' '''' [''Different''] [] False [run_1, run_2] [] = Inr [row_1, row_2]"
proof -
  have m: "\<not> named_keys [''Different'']" by code_simp
  show ?thesis
    by (simp add: m visit_run_def add_config_def dict_update_def run_1_def run_2_def
          row_1_def row_2_def)
qed

lemmas frame_example_defs =
  columns_remove_constant_columns DataFrame_def frame_columns_def str_values_def row_1_def
  row_2_def plain_cell_def plain_str_def

theorem pruner_columns_witness:
  "filter_runs plain_cell plain_str [run_1, run_2] '''' '''' [''Different''] [] False =
     Inr (remove_constant_columns plain_str (DataFrame plain_cell [row_1, row_2])) \<and>
   ''run_name'' \<in> set (columns (remove_constant_columns plain_str (DataFrame plain_cell [row_1, row_2]))) \<and>
   2 \<le> card (set (str_values plain_str
         (remove_constant_columns plain_str (DataFrame plain_cell [row_1, row_2])) ''run_name'')) \<and>
   ''group'' \<in> set (columns (DataFrame plain_cell [row_1, row_2])) \<and>
   ''group'' \<notin> set (columns (remove_constant_columns plain_str (DataFrame plain_cell [row_1, row_2]))) \<and>
   card (set (str_values plain_str (DataFrame plain_cell [row_1, row_2]) ''group'')) = 1"
proof -
  let ?t = "DataFrame plain_cell [row_1, row_2]"
  let ?df = "remove_constant_columns plain_str ?t"
  have m: "different [''Different'']" by code_simp
  have a: "filter_runs plain_cell plain_str [run_1, run_2] '''' '''' [''Different''] [] False = Inr ?df"
    by (simp only: filter_runs_def collect_rows_different_example) (simp add: m)
  have b: "''run_name'' \<in> set (columns ?df)" by (simp add: frame_example_defs)
  have c: "''group'' \<in> set (columns ?t)" by (simp add: frame_example_defs)
  have d: "''group'' \<notin> set (columns ?df)" by (simp add: frame_example_defs)
  from pruner_columns[OF a] obtain outp where
    o: "collect_rows '''' '''' [''Different''] [] False [run_1, run_2] [] = Inr outp" and
    i: "if different [''Different'']
      then ?df = remove_constant_columns plain_str (DataFrame plain_cell outp) \<and>
           (\<forall>col \<in> set (columns ?df). 2 \<le> card (set (str_values plain_str ?df col))) \<and>
           (\<forall>col \<in> set (columns (DataFrame plain_cell outp)) - set (columns ?df).
              card (set (str_values plain_str (DataFrame plain_cell outp) col)) = 1)
      else ?df = DataFrame plain_cell outp" by blast
  from o[unfolded collect_rows_different_example] have outp: "outp = [row_1, row_2]" by simp
  from i m outp b c d a show ?thesis by auto
qed

section \<open>A single row\<close>

lemma keys_dict_update: "fst ` set (dict_update d e) = fst ` set d \<union> fst ` set e"
  unfolding dict_update_def
  by (induction e arbitrary: d) (auto simp: dom_update split: prod.splits)

lemma keys_copy_config:
  "copy_config ps conf rp = Inr rp' \<Longrightarrow> fst ` set rp' = fst ` set rp \<union> set ps"
  by (induction ps arbitrary: rp) (auto simp: dom_update split: option.splits)

lemma keys_add_config:
  assumes "add_config cf conf rp = Inr rp'"
  shows "fst ` set rp \<subseteq> fst ` set rp'"
proof (cases "named_keys cf")
  case True
  with assms have "copy_config cf conf rp = Inr rp'" by (simp add: add_config_def)
  from keys_copy_config[OF this] show ?thesis by blast
next
  case False
  with assms have "rp' = dict_update rp conf" by (simp add: add_config_def)
  with keys_dict_update[of rp conf] show ?thesis by blast
qed

lemma keys_copy_results:
  "copy_results rf summ (rp, v) = (rp', v') \<Longrightarrow> fst ` set rp \<subseteq> fst ` set rp'"
proof (induction rf arbitrary: rp v)
  case Nil
  then show ?case by simp
next
  case (Cons p rf)
  show ?case
  proof (cases "map_of summ p")
    case None
    with Cons show ?thesis by simp
  next
    case (Some x)
    with Cons.prems have "copy_results rf summ (AList.update p x rp, True) = (rp', v')" by simp
    from Cons.IH[OF this] show ?thesis by (auto simp: dom_update)
  qed
qed

lemma visit_run_keys:
  assumes "visit_run gf jf cf rf ts r out = Inr out'" "list_all identity_keys out"
  shows "list_all identity_keys out'"
proof (cases "matches_filters gf jf r")
  case False
  with assms show ?thesis by (simp add: visit_run_gate[of gf jf])
next
  case True
  then have g: "(group r = gf \<or> gf = []) \<and> (job_type r = jf \<or> jf = [])"
    by (simp add: matches_filters_def)
  obtain rp where rp: "add_config cf (filter (\<lambda>(k, v). \<not> startswith k ''_'') (config r))
                [(''group'', VStr (group r)), (''job_type'', VStr (job_type r)),
                 (''run_name'', VStr (name r))] = Inr rp"
    using assms g by (auto simp: visit_run_def split: sum.splits)
  from keys_add_config[OF rp] have k: "identity_keys rp" by (simp add: identity_keys_def)
  obtain rp' v' where cr: "copy_results rf (summary r) (rp, False) = (rp', v')"
    by (cases "copy_results rf (summary r) (rp, False)") auto
  from keys_copy_results[OF cr] k have k': "identity_keys rp'" by (auto simp: identity_keys_def)
  have k'': "identity_keys (dict_update rp (summary r))"
    using k by (auto simp: identity_keys_def keys_dict_update)
  have k3: "identity_keys (AList.update ''timestamp'' t rp')" for t
    using k' by (auto simp: identity_keys_def dom_update)
  from assms g rp cr k' k'' k3 show ?thesis
    by (auto simp: visit_run_def split: if_splits option.splits)
qed

lemma collect_rows_keys:
  "collect_rows gf jf cf rf ts runs out = Inr out' \<Longrightarrow> list_all identity_keys out \<Longrightarrow>
   list_all identity_keys out'"
proof (induction runs arbitrary: out)
  case Nil
  then show ?case by simp
next
  case (Cons r runs)
  then obtain mid where m: "visit_run gf jf cf rf ts r out = Inr mid"
    and c: "collect_rows gf jf cf rf ts runs mid = Inr out'"
    by (auto split: sum.splits)
  from Cons.IH[OF c visit_run_keys[OF m Cons.prems(2)]] show ?case .
qed

lemma set_frame_columns: "set (frame_columns outp) = (\<Union>d \<in> set outp. fst ` set d)"
  by (auto simp: frame_columns_def)

text \<open>
  C10. A table with exactly one row loses every column in the pruner and keeps its row. So
  when \<^verbatim>\<open>filter_runs\<close> returns in "different" mode and a single run is to give a row, the
  result has one row and no column; the columns \<open>group\<close>, \<open>job_type\<close> and \<open>run_name\<close> of
  the table of the collected row are among those removed.
\<close>

theorem single_row_pruned:
  "(length (rows t) = 1 \<longrightarrow>
      columns (remove_constant_columns str t) = [] \<and>
      length (rows (remove_constant_columns str t)) = 1) \<and>
   (filter_runs cell str runs gf jf cf rf ts = Inr df \<and> different cf \<and>
    length (row_runs gf jf rf runs) = 1 \<longrightarrow>
      columns df = [] \<and> length (rows df) = 1 \<and>
      (\<exists>d. collect_rows gf jf cf rf ts runs [] = Inr [d] \<and>
           df = remove_constant_columns str (DataFrame cell [d]) \<and>
           {''group'', ''job_type'', ''run_name''} \<subseteq> set (columns (DataFrame cell [d]))))"
proof (intro conjI impI)
  assume "length (rows t) = 1"
  then show "columns (remove_constant_columns str t) = []"
    and "length (rows (remove_constant_columns str t)) = 1"
    by (simp_all add: single_row_columns rows_remove_constant_columns)
next
  assume a: "filter_runs cell str runs gf jf cf rf ts = Inr df \<and> different cf \<and>
    length (row_runs gf jf rf runs) = 1"
  from filter_runs_Inr[of cell str runs gf jf cf rf ts df] a obtain outp where
    c: "collect_rows gf jf cf rf ts runs [] = Inr outp" and
    d: "df = remove_constant_columns str (DataFrame cell outp)" by auto
  from collect_rows_length[OF c] a have "length outp = 1" by simp
  then obtain d0 where o: "outp = [d0]" by (cases outp) auto
  have l: "length (rows (DataFrame cell outp)) = 1"
    using \<open>length outp = 1\<close> by (simp add: length_rows_DataFrame)
  show "columns df = []" unfolding d by (rule single_row_columns[OF l])
  show "length (rows df) = 1" unfolding d by (simp add: rows_remove_constant_columns l)
  from collect_rows_keys[OF c] have "identity_keys d0" by (simp add: o)
  then have "{''group'', ''job_type'', ''run_name''} \<subseteq> set (columns (DataFrame cell [d0]))"
    by (simp add: identity_keys_def DataFrame_def set_frame_columns)
  with c d o show "\<exists>d. collect_rows gf jf cf rf ts runs [] = Inr [d] \<and>
           df = remove_constant_columns str (DataFrame cell [d]) \<and>
           {''group'', ''job_type'', ''run_name''} \<subseteq> set (columns (DataFrame cell [d]))"
    by blast
qed

theorem single_row_pruned_witness:
  "filter_runs plain_cell plain_str [run_1, run_3] ''A'' '''' [''different''] [] False =
     Inr (remove_constant_columns plain_str (DataFrame plain_cell [row_1])) \<and>
   different [''different''] \<and> row_runs ''A'' '''' [] [run_1, run_3] = [run_1] \<and>
   length (rows (DataFrame plain_cell [row_1])) = 1 \<and>
   columns (remove_constant_columns plain_str (DataFrame plain_cell [row_1])) = [] \<and>
   length (rows (remove_constant_columns plain_str (DataFrame plain_cell [row_1]))) = 1"
proof -
  have m: "different [''different'']" by code_simp
  have a: "filter_runs plain_cell plain_str [run_1, run_3] ''A'' '''' [''different''] [] False =
     Inr (remove_constant_columns plain_str (DataFrame plain_cell [row_1]))"
    by (simp add: filter_runs_def example_defs row_1_def)
  have b: "row_runs ''A'' '''' [] [run_1, run_3] = [run_1]" by (simp add: example_defs)
  have l: "length (rows (DataFrame plain_cell [row_1])) = 1" by (simp add: length_rows_DataFrame)
  from single_row_pruned[of "DataFrame plain_cell [row_1]" plain_str plain_cell "[run_1, run_3]"
      "''A''" "''''" "[''different'']" "[]" False
      "remove_constant_columns plain_str (DataFrame plain_cell [row_1])"] m a b l
  show ?thesis by simp
qed

section \<open>The modes of the config filter\<close>










section \<open>Stable descending sorting\<close>

lemma mset_insort_desc: "mset (insort_desc k x ys) = add_mset x (mset ys)"
  by (induction ys) auto

lemma mset_sort_desc: "mset (sort_desc k xs) = mset xs"
  by (induction xs) (simp_all add: sort_desc_def mset_insort_desc)

lemma set_sort_desc: "set (sort_desc k xs) = set xs"
  by (metis mset_sort_desc set_mset_mset)

lemma length_sort_desc: "length (sort_desc k xs) = length xs"
  by (metis mset_sort_desc size_mset)

lemma set_insort_desc: "set (insort_desc k x ys) = insert x (set ys)"
  by (metis mset_insort_desc set_mset_mset set_mset_add_mset_insert)

lemma sorted_insort_desc:
  "sorted_wrt (\<lambda>a b. k b \<le> k a) ys \<Longrightarrow> sorted_wrt (\<lambda>a b. k b \<le> k a) (insort_desc k x ys)"
proof (induction ys)
  case Nil
  then show ?case by simp
next
  case (Cons y ys)
  show ?case
  proof (cases "k y \<le> k x")
    case True
    with Cons.prems show ?thesis by (auto intro: order_trans)
  next
    case False
    then have "k x \<le> k y" by simp
    with Cons False show ?thesis by (auto simp: set_insort_desc)
  qed
qed

lemma sorted_sort_desc: "sorted_wrt (\<lambda>a b. k b \<le> k a) (sort_desc k xs)"
  by (induction xs) (simp_all add: sort_desc_def sorted_insort_desc)

lemma filter_insort_desc:
  "filter (\<lambda>y. k y = v) (insort_desc k x ys) =
     (if k x = v then x # filter (\<lambda>y. k y = v) ys else filter (\<lambda>y. k y = v) ys)"
  by (induction ys) auto

lemma sort_desc_stable: "filter (\<lambda>y. k y = v) (sort_desc k xs) = filter (\<lambda>y. k y = v) xs"
  by (induction xs) (simp_all add: sort_desc_def filter_insort_desc)

lemma filter_take_prefix:
  "filter P (take n xs) = take (length (filter P (take n xs))) (filter P xs)"
proof (induction xs arbitrary: n)
  case Nil
  then show ?case by simp
next
  case (Cons x xs)
  show ?case
  proof (cases n)
    case 0
    then show ?thesis by simp
  next
    case (Suc m)
    with Cons.IH[of m] show ?thesis by simp
  qed
qed

lemma sorted_wrt_take_drop:
  assumes "sorted_wrt R xs" "a \<in> set (take n xs)" "b \<in> set (drop n xs)"
  shows "R a b"
proof -
  from assms(1) have "sorted_wrt R (take n xs @ drop n xs)" by simp
  with assms(2,3) show ?thesis unfolding sorted_wrt_append by blast
qed

lemma row_key_fun: "row_key key cols = (\<lambda>r. map (\<lambda>col. key (snd r col)) cols)"
  by (rule ext) (simp add: row_key_def)

lemma find_Some_mem: "find P xs = Some x \<Longrightarrow> x \<in> set xs \<and> P x"
  by (induction xs) (auto split: if_splits)

lemma sort_values_succeeds:
  "(\<exists>df'. sort_values key cols df = Inr df') = list_all (\<lambda>col. col \<in> set (columns df)) cols"
proof (cases "find (\<lambda>col. col \<notin> set (columns df)) cols")
  case None
  then have "\<forall>c \<in> set cols. c \<in> set (columns df)" by (simp add: find_None_iff)
  with None show ?thesis by (simp add: sort_values_def list_all_iff)
next
  case (Some c)
  from find_Some_mem[OF Some] Some show ?thesis
    by (auto simp: sort_values_def list_all_iff)
qed

lemma columns_frame_example:
  "columns (DataFrame plain_cell [row_1, row_2]) =
     [''group'', ''job_type'', ''run_name'', ''lr'', ''ssim'', ''_timestamp'']"
  by (simp add: DataFrame_def frame_columns_def row_1_def row_2_def)

text \<open>
  C7. For every table and every non-empty sort specification, the sort stage, when the
  specification names columns of the table, returns the rows of the table with the same
  columns, in descending order of their keys in the named columns, and rows that agree on
  all named columns in their original relative order.
\<close>

theorem sort_stage_stable_descending:
  assumes "sort_by opt \<noteq> []" "sort_stage key opt df = Inr df'"
  shows "columns df' = columns df \<and> mset (rows df') = mset (rows df) \<and>
     sorted_wrt (\<lambda>a b. row_key key (sort_by opt) b \<le> row_key key (sort_by opt) a) (rows df') \<and>
     filter (\<lambda>r. row_key key (sort_by opt) r = ks) (rows df') =
       filter (\<lambda>r. row_key key (sort_by opt) r = ks) (rows df) \<and>
     list_all (\<lambda>col. col \<in> set (columns df)) (sort_by opt)"
proof -
  from assms have s: "sort_values key (sort_by opt) df = Inr df'"
    by (simp add: sort_stage_def)
  then have "\<exists>d. sort_values key (sort_by opt) df = Inr d" by blast
  then have ok: "list_all (\<lambda>col. col \<in> set (columns df)) (sort_by opt)"
    by (simp only: sort_values_succeeds)
  from s have d: "df' = df\<lparr>rows := sort_desc (row_key key (sort_by opt)) (rows df)\<rparr>"
    by (auto simp: sort_values_def row_key_fun split: option.splits)
  show ?thesis
    unfolding d using ok
    by (simp add: mset_sort_desc sorted_sort_desc sort_desc_stable)
qed

theorem sort_stage_stable_descending_witness:
  "sort_by (default_opt\<lparr>sort_by := [''ssim'']\<rparr>) \<noteq> [] \<and>
   sort_stage num_key (default_opt\<lparr>sort_by := [''ssim'']\<rparr>) (DataFrame plain_cell [row_1, row_2]) =
     Inr ((DataFrame plain_cell [row_1, row_2])
            \<lparr>rows := sort_desc (row_key num_key [''ssim'']) (rows (DataFrame plain_cell [row_1, row_2]))\<rparr>) \<and>
   map fst (sort_desc (row_key num_key [''ssim'']) (rows (DataFrame plain_cell [row_1, row_2]))) = [1, 0] \<and>
   sorted_wrt (\<lambda>a b. row_key num_key [''ssim''] b \<le> row_key num_key [''ssim''] a)
     (sort_desc (row_key num_key [''ssim'']) (rows (DataFrame plain_cell [row_1, row_2])))"
proof -
  let ?opt = "default_opt\<lparr>sort_by := [''ssim'']\<rparr>"
  let ?t = "DataFrame plain_cell [row_1, row_2]"
  have o: "sort_by ?opt = [''ssim'']" by simp
  have a: "sort_by ?opt \<noteq> []" by simp
  have b: "sort_stage num_key ?opt ?t =
     Inr (?t\<lparr>rows := sort_desc (row_key num_key [''ssim'']) (rows ?t)\<rparr>)"
    by (simp add: sort_stage_def sort_values_def columns_frame_example row_key_fun)
  have c: "map fst (sort_desc (row_key num_key [''ssim'']) (rows ?t)) = [1, 0]"
    by (simp add: sort_desc_def row_key_def DataFrame_def row_1_def row_2_def plain_cell_def
          num_key_def)
  from sort_stage_stable_descending[OF a b] a b c show ?thesis
    unfolding o by simp
qed

section \<open>The top-N stage\<close>

lemma mset_take_diff: "mset xs - mset (take n xs) = mset (drop n xs)"
proof -
  have "mset xs = mset (take n xs) + mset (drop n xs)"
    by (metis append_take_drop_id mset_append)
  then show ?thesis by simp
qed

text \<open>
  C6, as stated, fails: the limit is an integer of the command line, and for a negative
  limit the stage returns no row, not \<open>min N rows\<close> of them.
\<close>

theorem best_stage_counterexample:
  "best_stage num_key (default_opt\<lparr>best_metric := ''ssim'', n_largest := - 1\<rparr>)
       (DataFrame plain_cell [row_1, row_2]) =
     Inr ((DataFrame plain_cell [row_1, row_2])\<lparr>rows := []\<rparr>) \<and>
   length (rows ((DataFrame plain_cell [row_1, row_2])\<lparr>rows := []\<rparr>)) = 0 \<and>
   min (n_largest (default_opt\<lparr>best_metric := ''ssim'', n_largest := - 1\<rparr>))
       (int (length (rows (DataFrame plain_cell [row_1, row_2])))) = - 1"
  by (simp add: best_stage_def nlargest_def columns_frame_example length_rows_DataFrame)

text \<open>
  C6, amended. For every table and every best-metric selection with limit \<open>N\<close> (default 5)
  that names a column of the table, the top-N stage returns exactly \<open>min N rows\<close> of the
  rows when \<open>N\<close> is not negative and no row when it is; the rows returned are in descending
  order of the metric's key, no row left out has a greater key than a row returned, and
  among the rows of one key the stage returns the earliest, in their original order.
\<close>

theorem best_stage_top_n:
  assumes "best_metric opt \<noteq> ''''" "best_stage key opt df = Inr df'"
  shows "int (length (rows df')) = min (max (n_largest opt) 0) (int (length (rows df))) \<and>
     sorted_wrt (\<lambda>a b. key (snd b (best_metric opt)) \<le> key (snd a (best_metric opt))) (rows df') \<and>
     filter (\<lambda>r. key (snd r (best_metric opt)) = v) (rows df') =
       take (length (filter (\<lambda>r. key (snd r (best_metric opt)) = v) (rows df')))
         (filter (\<lambda>r. key (snd r (best_metric opt)) = v) (rows df)) \<and>
     mset (rows df') \<subseteq># mset (rows df) \<and>
     (\<forall>a \<in> set (rows df'). \<forall>b \<in># mset (rows df) - mset (rows df').
        key (snd b (best_metric opt)) \<le> key (snd a (best_metric opt))) \<and>
     columns df' = columns df \<and> best_metric opt \<in> set (columns df) \<and>
     n_largest default_opt = 5"
proof -
  let ?k = "\<lambda>r. key (snd r (best_metric opt))"
  let ?s = "sort_desc ?k (rows df)"
  let ?n = "nat (n_largest opt)"
  from assms have c: "best_metric opt \<in> set (columns df)"
    and d: "df' = df\<lparr>rows := take ?n ?s\<rparr>"
    by (auto simp: best_stage_def nlargest_def split: if_splits)
  have r: "rows df' = take ?n ?s" by (simp add: d)
  have 1: "int (length (rows df')) = min (max (n_largest opt) 0) (int (length (rows df)))"
    by (simp add: r length_sort_desc)
  have srt: "sorted_wrt (\<lambda>a b. ?k b \<le> ?k a) ?s" by (rule sorted_sort_desc)
  have 2: "sorted_wrt (\<lambda>a b. ?k b \<le> ?k a) (rows df')"
    unfolding r using srt by (rule sorted_wrt_take)
  have 3: "filter (\<lambda>r. ?k r = v) (rows df') =
       take (length (filter (\<lambda>r. ?k r = v) (rows df'))) (filter (\<lambda>r. ?k r = v) (rows df))"
    unfolding r using filter_take_prefix[of "\<lambda>r. ?k r = v" ?n ?s]
    by (simp only: sort_desc_stable)
  have m: "mset ?s = mset (rows df)" by (rule mset_sort_desc)
  have 4: "mset (rows df') \<subseteq># mset (rows df)"
    unfolding r m[symmetric] by (metis append_take_drop_id mset_append mset_subset_eq_add_left)
  have rest: "mset (rows df) - mset (rows df') = mset (drop ?n ?s)"
    unfolding r m[symmetric] by (rule mset_take_diff)
  have 5: "\<forall>a \<in> set (rows df'). \<forall>b \<in># mset (rows df) - mset (rows df'). ?k b \<le> ?k a"
    unfolding rest using sorted_wrt_take_drop[OF srt] by (auto simp: r)
  have 6: "n_largest default_opt = 5" by (simp add: default_opt_def)
  from 1 2 3 4 5 6 c d show ?thesis by simp
qed

theorem best_stage_top_n_witness:
  "best_metric (default_opt\<lparr>best_metric := ''ssim'', n_largest := 1\<rparr>) \<noteq> '''' \<and>
   best_stage num_key (default_opt\<lparr>best_metric := ''ssim'', n_largest := 1\<rparr>)
       (DataFrame plain_cell [row_1, row_2]) =
     Inr ((DataFrame plain_cell [row_1, row_2])
       \<lparr>rows := take 1 (sort_desc (\<lambda>r. num_key (snd r ''ssim''))
                   (rows (DataFrame plain_cell [row_1, row_2])))\<rparr>) \<and>
   map fst (take 1 (sort_desc (\<lambda>r. num_key (snd r ''ssim''))
                   (rows (DataFrame plain_cell [row_1, row_2])))) = [1] \<and>
   int (length (take 1 (sort_desc (\<lambda>r. num_key (snd r ''ssim''))
                   (rows (DataFrame plain_cell [row_1, row_2]))))) =
     min (max 1 0) (int (length (rows (DataFrame plain_cell [row_1, row_2]))))"
proof -
  let ?opt = "default_opt\<lparr>best_metric := ''ssim'', n_largest := 1\<rparr>"
  let ?t = "DataFrame plain_cell [row_1, row_2]"
  let ?r = "take 1 (sort_desc (\<lambda>r. num_key (snd r ''ssim'')) (rows ?t))"
  have o: "best_metric ?opt = ''ssim''" "n_largest ?opt = 1" by simp_all
  have a: "best_metric ?opt \<noteq> ''''" by simp
  have b: "best_stage num_key ?opt ?t = Inr (?t\<lparr>rows := ?r\<rparr>)"
    by (simp add: best_stage_def nlargest_def columns_frame_example)
  have c: "map fst ?r = [1]"
    by (simp add: sort_desc_def DataFrame_def row_1_def row_2_def plain_cell_def num_key_def)
  from best_stage_top_n[OF a b] have
    "int (length (rows (?t\<lparr>rows := ?r\<rparr>))) = min (max (n_largest ?opt) 0) (int (length (rows ?t)))"
    by blast
  with a b c show ?thesis unfolding o by simp
qed

section \<open>The rounding stage\<close>








end
